theory Spec2Isabelle
  imports Main "HOL-Library.AList"
begin

section \<open>Go strings and the library functions the generator calls\<close>

text \<open>
  A Go string is a sequence of bytes, and so is \<^typ>\<open>string\<close>. A \<open>range\<close> loop over a
  string does not visit bytes: it decodes UTF-8 and visits runes (code points), each with the
  byte offset at which it starts. A byte that starts no well-formed sequence is visited as
  the rune \<open>U+FFFD\<close> of width one.
\<close>

type_synonym rune = nat

definition RuneError :: rune where
  "RuneError = 0xFFFD"

definition byte :: "char \<Rightarrow> nat" where
  "byte c = of_char c"

definition inRange :: "nat \<times> nat \<Rightarrow> char \<Rightarrow> bool" where
  "inRange r c \<longleftrightarrow> fst r \<le> byte c \<and> byte c \<le> snd r"

text \<open>
  The second byte that a leading byte accepts: the narrower ranges exclude over-long forms,
  surrogates and code points above \<open>U+10FFFF\<close>.
\<close>

definition acceptRange :: "nat \<Rightarrow> nat \<times> nat" where
  "acceptRange b0 =
     (if b0 = 0xE0 then (0xA0, 0xBF) else if b0 = 0xED then (0x80, 0x9F)
      else if b0 = 0xF0 then (0x90, 0xBF) else if b0 = 0xF4 then (0x80, 0x8F)
      else (0x80, 0xBF))"

text \<open>The first rune of a string and its width in bytes.\<close>

fun decodeRune :: "string \<Rightarrow> rune \<times> nat" where
  "decodeRune [] = (RuneError, 0)"
| "decodeRune (c0 # cs) =
     (let b0 = byte c0; accept = acceptRange b0 in
      if b0 < 0x80 then (b0, 1)
      else if 0xC2 \<le> b0 \<and> b0 \<le> 0xDF then
        (case cs of
           c1 # _ \<Rightarrow>
             if inRange accept c1 then ((b0 mod 0x20) * 0x40 + byte c1 mod 0x40, 2)
             else (RuneError, 1)
         | _ \<Rightarrow> (RuneError, 1))
      else if 0xE0 \<le> b0 \<and> b0 \<le> 0xEF then
        (case cs of
           c1 # c2 # _ \<Rightarrow>
             if inRange accept c1 \<and> inRange (0x80, 0xBF) c2 then
               ((b0 mod 0x10) * 0x1000 + (byte c1 mod 0x40) * 0x40 + byte c2 mod 0x40, 3)
             else (RuneError, 1)
         | _ \<Rightarrow> (RuneError, 1))
      else if 0xF0 \<le> b0 \<and> b0 \<le> 0xF4 then
        (case cs of
           c1 # c2 # c3 # _ \<Rightarrow>
             if inRange accept c1 \<and> inRange (0x80, 0xBF) c2 \<and> inRange (0x80, 0xBF) c3 then
               ((b0 mod 0x08) * 0x40000 + (byte c1 mod 0x40) * 0x1000
                  + (byte c2 mod 0x40) * 0x40 + byte c3 mod 0x40, 4)
             else (RuneError, 1)
         | _ \<Rightarrow> (RuneError, 1))
      else (RuneError, 1))"

text \<open>\<open>for i, r := range s\<close>: the pairs \<open>(i, r)\<close> in the order of the loop.\<close>

fun rangeString :: "nat \<Rightarrow> string \<Rightarrow> (nat \<times> rune) list" where
  "rangeString i [] = []"
| "rangeString i (c # cs) =
     (let (r, w) = decodeRune (c # cs) in (i, r) # rangeString (i + w) (drop (w - 1) cs))"

text \<open>
  \<open>strings.Builder.WriteRune\<close> appends the UTF-8 encoding of a rune; a surrogate or a value
  above \<open>U+10FFFF\<close> is written as \<open>U+FFFD\<close>.
\<close>

definition encodeRune :: "rune \<Rightarrow> string" where
  "encodeRune r =
     (if r < 0x80 then [char_of r]
      else if r < 0x800 then [char_of (0xC0 + r div 0x40), char_of (0x80 + r mod 0x40)]
      else if 0x10FFFF < r \<or> (0xD800 \<le> r \<and> r \<le> 0xDFFF) then [CHR 0xEF, CHR 0xBF, CHR 0xBD]
      else if r < 0x10000 then
        [char_of (0xE0 + r div 0x1000), char_of (0x80 + (r div 0x40) mod 0x40),
         char_of (0x80 + r mod 0x40)]
      else
        [char_of (0xF0 + r div 0x40000), char_of (0x80 + (r div 0x1000) mod 0x40),
         char_of (0x80 + (r div 0x40) mod 0x40), char_of (0x80 + r mod 0x40)])"

text \<open>
  The case tables of package \<open>unicode\<close> belong to the Go release, not to the repository.
  On ASCII they are fixed: the upper case letters are \<open>A\<close> to \<open>Z\<close>, and \<open>ToLower\<close> adds
  \<open>0x20\<close> to them. Beyond ASCII the tables are a parameter of the model.
\<close>

record unicode =
  IsUpperTab :: "rune \<Rightarrow> bool"
  ToLowerTab :: "rune \<Rightarrow> rune"

definition unicode_IsUpper :: "unicode \<Rightarrow> rune \<Rightarrow> bool" where
  "unicode_IsUpper U r = (if r < 0x80 then 0x41 \<le> r \<and> r \<le> 0x5A else IsUpperTab U r)"

definition unicode_ToLower :: "unicode \<Rightarrow> rune \<Rightarrow> rune" where
  "unicode_ToLower U r =
     (if r < 0x80 then (if 0x41 \<le> r \<and> r \<le> 0x5A then r + 0x20 else r) else ToLowerTab U r)"

text \<open>
  \<open>strings.Split(s, sep)\<close> for a separator of one byte: the pieces between the separators,
  one more than there are separators; the empty string gives one empty piece.
\<close>

fun strings_Split :: "string \<Rightarrow> char \<Rightarrow> string list" where
  "strings_Split [] sep = [[]]"
| "strings_Split (c # cs) sep =
     (if c = sep then [] # strings_Split cs sep
      else (case strings_Split cs sep of
              p # ps \<Rightarrow> (c # p) # ps
            | [] \<Rightarrow> [[c]]))"

text \<open>
  \<open>strings.ToUpper\<close> of the string that holds the one byte \<open>c\<close>, which is what
  \<open>parts[i][:1]\<close> is. An ASCII byte takes the ASCII path. Any other byte alone is not
  well-formed UTF-8: \<open>ToUpper\<close> goes through \<open>strings.Map\<close>, which reads it as \<open>U+FFFD\<close>
  of width one and writes the three bytes of \<open>U+FFFD\<close> in its place.
\<close>

definition strings_ToUpper1 :: "char \<Rightarrow> string" where
  "strings_ToUpper1 c =
     (if byte c < 0x80 then
        (if 0x61 \<le> byte c \<and> byte c \<le> 0x7A then [char_of (byte c - 0x20)] else [c])
      else encodeRune RuneError)"

text \<open>
  A Go map is kept as an association list with distinct keys. The order in which \<open>range\<close>
  visits the keys of a map is not specified and differs from run to run: it is a parameter,
  a function that permutes the keys.
\<close>

type_synonym mapOrder = "string list \<Rightarrow> string list"

definition validOrder :: "mapOrder \<Rightarrow> bool" where
  "validOrder ord \<longleftrightarrow> (\<forall>ks. distinct ks \<longrightarrow> distinct (ord ks) \<and> set (ord ks) = set ks)"

definition nl :: string where "nl = [CHR 0x0A]"
definition tab :: string where "tab = [CHR 0x09]"
definition dquote :: string where "dquote = [CHR 0x22]"
definition backquote :: string where "backquote = [CHR 0x60]"

text \<open>
  The verb \<open>%q\<close> of \<open>fmt.Sprintf\<close> on a string of printable ASCII without quote or
  backslash, which the import paths are: the string between double quotes.
\<close>

definition fmt_q :: "string \<Rightarrow> string" where
  "fmt_q s = dquote @ s @ dquote"

section \<open>Identifier case conversion\<close>

definition toSnakeCase :: "unicode \<Rightarrow> string \<Rightarrow> string" where
  "toSnakeCase U s =
     fold (\<lambda>(i, r) result.
             if unicode_IsUpper U r then
               (if 0 < i then result @ encodeRune 0x5F else result)
                 @ encodeRune (unicode_ToLower U r)
             else result @ encodeRune r)
       (rangeString 0 s) []"

definition toCamelCase :: "string \<Rightarrow> string" where
  "toCamelCase s =
     (let parts = strings_Split s (CHR ''_'');
          parts = fold (\<lambda>i parts.
                          case parts ! i of
                            [] \<Rightarrow> parts
                          | c # cs \<Rightarrow> parts[i := strings_ToUpper1 c @ cs])
                    [0..<length parts] parts
      in concat parts)"

section \<open>Type mapping: \<open>mysqlTypeToGo\<close>\<close>

text \<open>
  The first \<open>switch\<close> of \<open>mysqlTypeToGo\<close> assigns the local \<open>goType\<close>; a \<open>case\<close>
  with several values is a membership test, and the cases are tried in the order of the
  source.
\<close>

definition goTypeOf :: "string \<Rightarrow> bool \<Rightarrow> string" where
  "goTypeOf dataType unsigned =
     (if dataType = ''tinyint'' then (if unsigned then ''uint8'' else ''int8'')
      else if dataType = ''smallint'' then (if unsigned then ''uint16'' else ''int16'')
      else if dataType \<in> set [''mediumint'', ''int'', ''integer''] then
        (if unsigned then ''uint32'' else ''int32'')
      else if dataType = ''bigint'' then (if unsigned then ''uint64'' else ''int64'')
      else if dataType = ''float'' then ''float32''
      else if dataType \<in> set [''double'', ''real''] then ''float64''
      else if dataType \<in> set [''decimal'', ''numeric''] then ''float64''
      else if dataType \<in> set [''char'', ''varchar'', ''text'', ''tinytext'', ''mediumtext'',
                               ''longtext'', ''enum'', ''set''] then ''string''
      else if dataType \<in> set [''binary'', ''varbinary'', ''blob'', ''tinyblob'', ''mediumblob'',
                               ''longblob''] then ''[]byte''
      else if dataType \<in> set [''datetime'', ''timestamp'', ''date'', ''time''] then ''time.Time''
      else if dataType = ''year'' then (if unsigned then ''uint16'' else ''int16'')
      else if dataType = ''bit'' then ''[]byte''
      else if dataType = ''json'' then ''string''
      else ''string'')"

definition mysqlTypeToGo :: "string \<Rightarrow> bool \<Rightarrow> bool \<Rightarrow> string" where
  "mysqlTypeToGo dataType nullable unsigned =
     (let goType = goTypeOf dataType unsigned in
      if nullable then
        (if goType \<in> set [''int8'', ''int16'', ''int32'', ''int64'',
                           ''uint8'', ''uint16'', ''uint32'', ''uint64''] then ''*'' @ goType
         else if goType \<in> set [''float32'', ''float64''] then ''*'' @ goType
         else if goType = ''string'' then ''*string''
         else if goType = ''[]byte'' then ''[]byte''
         else if goType = ''time.Time'' then ''*time.Time''
         else goType)
      else goType)"

text \<open>
  The early variant of the generator kept in the source file has no \<open>unsigned\<close>
  parameter: every integer family maps to its signed type.
\<close>

definition goTypeOf_early :: "string \<Rightarrow> string" where
  "goTypeOf_early dataType =
     (if dataType = ''tinyint'' then ''int8''
      else if dataType = ''smallint'' then ''int16''
      else if dataType \<in> set [''mediumint'', ''int'', ''integer''] then ''int32''
      else if dataType = ''bigint'' then ''int64''
      else if dataType = ''float'' then ''float32''
      else if dataType \<in> set [''double'', ''real''] then ''float64''
      else if dataType \<in> set [''decimal'', ''numeric''] then ''float64''
      else if dataType \<in> set [''char'', ''varchar'', ''text'', ''tinytext'', ''mediumtext'',
                               ''longtext'', ''enum'', ''set''] then ''string''
      else if dataType \<in> set [''binary'', ''varbinary'', ''blob'', ''tinyblob'', ''mediumblob'',
                               ''longblob''] then ''[]byte''
      else if dataType \<in> set [''datetime'', ''timestamp'', ''date'', ''time''] then ''time.Time''
      else if dataType = ''year'' then ''int16''
      else if dataType = ''bit'' then ''[]byte''
      else if dataType = ''json'' then ''string''
      else ''string'')"

definition mysqlTypeToGo_early :: "string \<Rightarrow> bool \<Rightarrow> string" where
  "mysqlTypeToGo_early dataType nullable =
     (let goType = goTypeOf_early dataType in
      if nullable then
        (if goType \<in> set [''int8'', ''int16'', ''int32'', ''int64''] then ''*'' @ goType
         else if goType \<in> set [''float32'', ''float64''] then ''*'' @ goType
         else if goType = ''string'' then ''*string''
         else if goType = ''[]byte'' then ''[]byte''
         else if goType = ''time.Time'' then ''*time.Time''
         else goType)
      else goType)"

section \<open>Schema, generator and emission\<close>

text \<open>
  Modelled from the spec: the field \<open>IsUnsigned\<close> of \<open>Column\<close> (the unsigned flag of
  the column descriptor). The declaration of \<open>Column\<close> in the schema reader predates it;
  \<open>generateStruct\<close> reads \<open>col.IsUnsigned\<close> and the schema tests set it.
\<close>

record Column =
  Name :: string
  DataType :: string
  IsNullable :: bool
  IsUnsigned :: bool
  ColumnKey :: string
  Extra :: string
  Comment :: string

record Table =
  Name :: string
  Columns :: "Column list"

record Generator =
  packageName :: string
  outputDir :: string
  force :: bool
  confirmFunc :: "(string \<Rightarrow> bool) option"

definition WithForce :: "bool \<Rightarrow> Generator \<Rightarrow> Generator" where
  "WithForce f g = g\<lparr>force := f\<rparr>"

definition WithConfirmFunc :: "(string \<Rightarrow> bool) \<Rightarrow> Generator \<Rightarrow> Generator" where
  "WithConfirmFunc fn g = g\<lparr>confirmFunc := Some fn\<rparr>"

definition New :: "string \<Rightarrow> string \<Rightarrow> (Generator \<Rightarrow> Generator) list \<Rightarrow> Generator" where
  "New pkg dir opts =
     fold (\<lambda>opt g. opt g) opts
       \<lparr>packageName = pkg, outputDir = dir, force = False, confirmFunc = None\<rparr>"

definition collectImports :: "mapOrder \<Rightarrow> Table \<Rightarrow> string list" where
  "collectImports ord table =
     (let imports =
        fold (\<lambda>col imports.
                if DataType col \<in> set [''datetime'', ''timestamp'', ''date'', ''time'']
                then AList.update ''time'' True imports
                else imports)
          (Columns table) []
      in fold (\<lambda>imp result. result @ [imp]) (ord (map fst imports)) [])"

text \<open>The early variant also imports \<open>database/sql\<close> for a nullable time column.\<close>

definition collectImports_early :: "mapOrder \<Rightarrow> Table \<Rightarrow> string list" where
  "collectImports_early ord table =
     (let imports =
        fold (\<lambda>col imports.
                let imports =
                  (if DataType col \<in> set [''datetime'', ''timestamp'', ''date'', ''time'']
                   then AList.update ''time'' True imports
                   else imports)
                in if IsNullable col then
                     (if DataType col \<in> set [''datetime'', ''timestamp'', ''date'', ''time'']
                      then AList.update ''database/sql'' True imports
                      else imports)
                   else imports)
          (Columns table) []
      in fold (\<lambda>imp result. result @ [imp]) (ord (map fst imports)) [])"

text \<open>\<open>generateStruct\<close> writes to a buffer; \<open>buf\<close> is the buffer after each write.\<close>

definition generateStruct :: "mapOrder \<Rightarrow> Generator \<Rightarrow> Table \<Rightarrow> string" where
  "generateStruct ord g table =
     (let buf = ''package '' @ packageName g @ nl @ nl;
          imports = collectImports ord table;
          buf = (if 0 < length imports then
                   (let buf = buf @ ''import ('' @ nl;
                        buf = fold (\<lambda>imp buf. buf @ tab @ fmt_q imp @ nl) imports buf
                    in buf @ '')'' @ nl @ nl)
                 else buf);
          structName = toCamelCase (Table.Name table);
          buf = buf @ ''type '' @ structName @ '' struct {'' @ nl;
          buf = fold (\<lambda>col buf.
                        let fieldName = toCamelCase (Column.Name col);
                            fieldType = mysqlTypeToGo (DataType col) (IsNullable col)
                                          (IsUnsigned col);
                            tag = backquote @ ''db:'' @ dquote @ Column.Name col @ dquote
                                    @ backquote
                        in buf @ tab @ fieldName @ '' '' @ fieldType @ '' '' @ tag @ nl)
                  (Columns table) buf
      in buf @ ''}'' @ nl)"

subsection \<open>Writing the file\<close>

text \<open>
  The outcomes of \<open>Generate\<close> other than \<open>nil\<close>: the sentinel \<open>ErrSkipped\<close> and the three
  wrapped errors. The file system is the content of every regular file by path, and the
  invocations of the confirmation function are logged, in order, with their argument.
\<close>

datatype error =
  ErrSkipped
| FailedToCreateOutputDirectory
| FailedToFormatCode string
| FailedToWriteFile

record world =
  files :: "string \<rightharpoonup> string"
  confirmations :: "string list"

text \<open>
  What the generator does not decide: the case tables, the order of map iteration, whether
  \<open>os.MkdirAll\<close> and \<open>os.WriteFile\<close> succeed (and what a failed write leaves at the
  path), the formatter \<open>format.Source\<close> (\<open>None\<close> when it fails) and \<open>filepath.Join\<close>.
\<close>

record env =
  unicodeTables :: unicode
  rangeOrder :: mapOrder
  MkdirAll_ok :: "string \<Rightarrow> bool"
  format_Source :: "string \<Rightarrow> string option"
  filepath_Join :: "string \<Rightarrow> string \<Rightarrow> string"
  WriteFile_ok :: "string \<Rightarrow> bool"
  WriteFile_failed :: "string \<Rightarrow> string option"

text \<open>\<open>os.Stat\<close> returns no error when the path exists.\<close>

definition os_Stat_ok :: "world \<Rightarrow> string \<Rightarrow> bool" where
  "os_Stat_ok w path \<longleftrightarrow> path \<in> dom (files w)"

definition os_WriteFile :: "env \<Rightarrow> string \<Rightarrow> string \<Rightarrow> world \<Rightarrow> error option \<times> world" where
  "os_WriteFile e path content w =
     (if WriteFile_ok e path then (None, w\<lparr>files := (files w)(path \<mapsto> content)\<rparr>)
      else (Some FailedToWriteFile, w\<lparr>files := (files w)(path := WriteFile_failed e path)\<rparr>))"

text \<open>
  The confirmation function answers for a path; each invocation is appended to the log.
\<close>

definition callConfirm :: "(string \<Rightarrow> bool) \<Rightarrow> string \<Rightarrow> world \<Rightarrow> bool \<times> world" where
  "callConfirm confirm path w = (confirm path, w\<lparr>confirmations := confirmations w @ [path]\<rparr>)"

definition targetPath :: "env \<Rightarrow> Generator \<Rightarrow> Table \<Rightarrow> string" where
  "targetPath e g table =
     (let filename = toSnakeCase (unicodeTables e) (Table.Name table) @ ''.go''
      in filepath_Join e (outputDir g) filename)"

definition Generate :: "env \<Rightarrow> Generator \<Rightarrow> Table \<Rightarrow> world \<Rightarrow> error option \<times> world" where
  "Generate e g table w =
     (if \<not> MkdirAll_ok e (outputDir g) then (Some FailedToCreateOutputDirectory, w)
      else
        let code = generateStruct (rangeOrder e) g table in
        case format_Source e code of
          None \<Rightarrow> (Some (FailedToFormatCode code), w)
        | Some formatted \<Rightarrow>
            let filePath = targetPath e g table;
                (skipped, w) =
                  (if os_Stat_ok w filePath then
                     (if \<not> force g \<and> confirmFunc g \<noteq> None then
                        (let (ok, w) = callConfirm (the (confirmFunc g)) filePath w
                         in (\<not> ok, w))
                      else (False, w))
                   else (False, w))
            in if skipped then (Some ErrSkipped, w)
               else os_WriteFile e filePath formatted w)"

section \<open>The specification's side\<close>

subsection \<open>The mapping table\<close>

text \<open>
  The table of section 4.1 of the specification, row by row: a raw type name and the
  unsigned flag give a base type; a name that is in no row gives the string type.
\<close>

datatype width = W8 | W16 | W32 | W64

datatype baseType = SInt width | UInt width | Float32 | Float64 | String | ByteSeq | Timestamp

fun bits :: "width \<Rightarrow> string" where
  "bits W8 = ''8''"
| "bits W16 = ''16''"
| "bits W32 = ''32''"
| "bits W64 = ''64''"

fun goName :: "baseType \<Rightarrow> string" where
  "goName (SInt w) = ''int'' @ bits w"
| "goName (UInt w) = ''uint'' @ bits w"
| "goName Float32 = ''float32''"
| "goName Float64 = ''float64''"
| "goName String = ''string''"
| "goName ByteSeq = ''[]byte''"
| "goName Timestamp = ''time.Time''"

definition mapType_table :: "string \<Rightarrow> bool \<Rightarrow> baseType" where
  "mapType_table rawType unsigned =
     (let integer = (\<lambda>w. if unsigned then UInt w else SInt w) in
      case map_of
        [(''tinyint'', integer W8),
         (''smallint'', integer W16),
         (''mediumint'', integer W32), (''int'', integer W32), (''integer'', integer W32),
         (''bigint'', integer W64),
         (''float'', Float32),
         (''double'', Float64), (''real'', Float64), (''decimal'', Float64),
         (''numeric'', Float64),
         (''char'', String), (''varchar'', String), (''text'', String), (''tinytext'', String),
         (''mediumtext'', String), (''longtext'', String), (''enum'', String), (''set'', String),
         (''json'', String),
         (''binary'', ByteSeq), (''varbinary'', ByteSeq), (''blob'', ByteSeq),
         (''tinyblob'', ByteSeq), (''mediumblob'', ByteSeq), (''longblob'', ByteSeq),
         (''bit'', ByteSeq),
         (''datetime'', Timestamp), (''timestamp'', Timestamp), (''date'', Timestamp),
         (''time'', Timestamp),
         (''year'', integer W16)] rawType
      of Some b \<Rightarrow> b | None \<Rightarrow> String)"

text \<open>The optional representation of a Go type is the pointer to it.\<close>

definition optional :: "string \<Rightarrow> string" where
  "optional goType = ''*'' @ goType"

definition isOptional :: "string \<Rightarrow> bool" where
  "isOptional goType \<longleftrightarrow> take 1 goType = ''*''"

definition byteSequenceTypes :: "string list" where
  "byteSequenceTypes =
     [''binary'', ''varbinary'', ''blob'', ''tinyblob'', ''mediumblob'', ''longblob'', ''bit'']"

subsection \<open>Case conversion on characters\<close>

text \<open>
  The characters of a string are the runes a \<open>range\<close> loop visits; a sequence of
  characters is written out by encoding each.
\<close>

definition runes :: "string \<Rightarrow> rune list" where
  "runes s = map snd (rangeString 0 s)"

definition writeRunes :: "rune list \<Rightarrow> string" where
  "writeRunes rs = concat (map encodeRune rs)"

text \<open>
  \<open>toFileCase\<close> in the specification's words: an upper case first character is replaced
  by its lower case form; every later upper case character is replaced by an underscore
  and its lower case form; every other character stays; no character, no output.
\<close>

definition toFileCase_spec :: "unicode \<Rightarrow> rune list \<Rightarrow> rune list" where
  "toFileCase_spec U rs =
     (case rs of
        [] \<Rightarrow> []
      | r # rest \<Rightarrow>
          (if unicode_IsUpper U r then [unicode_ToLower U r] else [r])
          @ concat (map (\<lambda>r. if unicode_IsUpper U r then [0x5F, unicode_ToLower U r] else [r])
                      rest))"

text \<open>
  The same on ASCII strings, where every character is one byte.
\<close>

definition isAsciiUpper :: "char \<Rightarrow> bool" where
  "isAsciiUpper c \<longleftrightarrow> 0x41 \<le> byte c \<and> byte c \<le> 0x5A"

definition asciiLower :: "char \<Rightarrow> char" where
  "asciiLower c = (if isAsciiUpper c then char_of (byte c + 0x20) else c)"

definition toFileCase_ascii :: "string \<Rightarrow> string" where
  "toFileCase_ascii s =
     (case s of
        [] \<Rightarrow> []
      | c # cs \<Rightarrow>
          asciiLower c
          # concat (map (\<lambda>c. if isAsciiUpper c then [CHR ''_'', asciiLower c] else [c]) cs))"

text \<open>
  \<open>toFieldCase\<close> in the specification's words, for ASCII: split on underscore, put the
  first character of each segment that is not empty in upper case, concatenate.
\<close>

definition asciiUpper :: "char \<Rightarrow> char" where
  "asciiUpper c = (if 0x61 \<le> byte c \<and> byte c \<le> 0x7A then char_of (byte c - 0x20) else c)"

definition toFieldCase_ascii :: "string \<Rightarrow> string" where
  "toFieldCase_ascii s =
     concat (map (\<lambda>seg. case seg of [] \<Rightarrow> [] | c # cs \<Rightarrow> asciiUpper c # cs)
               (strings_Split s (CHR ''_'')))"

fun capitalize :: "string \<Rightarrow> string" where
  "capitalize [] = []"
| "capitalize (c # cs) = strings_ToUpper1 c @ cs"

subsection \<open>The shape of a declaration\<close>

definition importBlock :: "string list \<Rightarrow> string" where
  "importBlock imports =
     (if imports = [] then []
      else ''import ('' @ nl @ concat (map (\<lambda>imp. tab @ dquote @ imp @ dquote @ nl) imports)
           @ '')'' @ nl @ nl)"

definition declHeader :: "mapOrder \<Rightarrow> Generator \<Rightarrow> Table \<Rightarrow> string" where
  "declHeader ord g table =
     ''package '' @ packageName g @ nl @ nl @ importBlock (collectImports ord table)
     @ ''type '' @ toCamelCase (Table.Name table) @ '' struct {'' @ nl"

text \<open>A field: its name, its type and the annotation that holds the column's name.\<close>

definition fieldDecl :: "string \<Rightarrow> string \<Rightarrow> string \<Rightarrow> string" where
  "fieldDecl fieldName fieldType columnName =
     tab @ fieldName @ '' '' @ fieldType @ '' ''
     @ backquote @ ''db:'' @ dquote @ columnName @ dquote @ backquote @ nl"

definition columnField :: "Column \<Rightarrow> string" where
  "columnField col =
     fieldDecl (toCamelCase (Column.Name col))
       (mysqlTypeToGo (DataType col) (IsNullable col) (IsUnsigned col)) (Column.Name col)"

subsection \<open>Example data\<close>

text \<open>Case tables that know no letter beyond ASCII.\<close>

definition asciiTables :: unicode where
  "asciiTables = \<lparr>IsUpperTab = (\<lambda>r. False), ToLowerTab = (\<lambda>r. r)\<rparr>"

definition column :: "string \<Rightarrow> string \<Rightarrow> bool \<Rightarrow> bool \<Rightarrow> Column" where
  "column name dataType nullable unsigned =
     \<lparr>Column.Name = name, DataType = dataType, IsNullable = nullable, IsUnsigned = unsigned,
       ColumnKey = [], Extra = [], Comment = []\<rparr>"

definition user_accounts :: Table where
  "user_accounts =
     \<lparr>Table.Name = ''user_accounts'',
       Columns = [column ''id'' ''bigint'' False True,
                  column ''username'' ''varchar'' False False,
                  column ''email'' ''varchar'' True False,
                  column ''created_at'' ''datetime'' False False,
                  column ''deleted_at'' ''datetime'' True False]\<rparr>"

definition users :: Table where
  "users = \<lparr>Table.Name = ''users'', Columns = [column ''id'' ''int'' False False]\<rparr>"

definition events :: Table where
  "events = \<lparr>Table.Name = ''events'', Columns = [column ''at'' ''datetime'' True False]\<rparr>"

text \<open>
  An environment in which every operation succeeds and the formatter returns its input,
  and a file system that holds the target file of \<open>users\<close>.
\<close>

definition exampleEnv :: env where
  "exampleEnv =
     \<lparr>unicodeTables = asciiTables, rangeOrder = (\<lambda>ks. ks), MkdirAll_ok = (\<lambda>dir. True),
       format_Source = Some, filepath_Join = (\<lambda>dir file. dir @ ''/'' @ file),
       WriteFile_ok = (\<lambda>path. True), WriteFile_failed = (\<lambda>path. None)\<rparr>"

definition exampleWorld :: world where
  "exampleWorld = \<lparr>files = [''out/users.go'' \<mapsto> ''existing content''], confirmations = []\<rparr>"

subsection \<open>What one step of the scan of \<open>toSnakeCase\<close> writes\<close>

definition piece :: "unicode \<Rightarrow> nat \<times> rune \<Rightarrow> string" where
  "piece U = (\<lambda>(i, r).
     if unicode_IsUpper U r then
       (if 0 < i then encodeRune 0x5F else []) @ encodeRune (unicode_ToLower U r)
     else encodeRune r)"

section \<open>Evaluation\<close>

lemmas string_eval =
  byte_def RuneError_def acceptRange_def inRange_def encodeRune_def char_of_eq_iff
  unicode_IsUpper_def unicode_ToLower_def strings_ToUpper1_def

lemma fold_append_pieces:
  "fold (\<lambda>x acc. acc @ f x) xs acc = acc @ concat (map f xs)"
  by (induction xs arbitrary: acc) simp_all

section \<open>Properties of the type mapping\<close>

lemma goTypeOf_table: "goTypeOf rawType unsigned = goName (mapType_table rawType unsigned)"
  by (simp add: goTypeOf_def mapType_table_def)

lemma goTypeOf_early_signed: "goTypeOf_early dataType = goTypeOf dataType False"
  by (simp add: goTypeOf_early_def goTypeOf_def)

lemma goName_not_optional: "\<not> isOptional (goName b)"
  by (cases b) (simp_all add: isOptional_def)

lemma byteSeq_raw_types:
  "mapType_table rawType unsigned = ByteSeq \<longleftrightarrow> rawType \<in> set byteSequenceTypes"
  by (simp add: mapType_table_def byteSequenceTypes_def)

lemma mapType_table_signed: "mapType_table rawType False \<noteq> UInt w"
  by (simp add: mapType_table_def)

lemma wrap_goName:
  "mysqlTypeToGo rawType True unsigned =
     (if mapType_table rawType unsigned = ByteSeq then goName ByteSeq
      else optional (goName (mapType_table rawType unsigned)))"
proof (cases "mapType_table rawType unsigned")
  case (SInt w)
  then show ?thesis
    unfolding mysqlTypeToGo_def goTypeOf_table by (cases w) (simp_all add: optional_def)
next
  case (UInt w)
  then show ?thesis
    unfolding mysqlTypeToGo_def goTypeOf_table by (cases w) (simp_all add: optional_def)
qed (simp_all add: mysqlTypeToGo_def goTypeOf_table optional_def)

lemma mysqlTypeToGo_early_signed:
  "mysqlTypeToGo_early dataType nullable = mysqlTypeToGo dataType nullable False"
proof (cases "mapType_table dataType False")
  case (SInt w)
  then show ?thesis
    unfolding mysqlTypeToGo_early_def mysqlTypeToGo_def goTypeOf_early_signed goTypeOf_table
    by (cases w) (simp_all add: Let_def)
next
  case (UInt w)
  then show ?thesis by (simp add: mapType_table_signed)
qed (simp_all add: mysqlTypeToGo_early_def mysqlTypeToGo_def goTypeOf_early_signed
       goTypeOf_table Let_def)

text \<open>The cases of the repository's test \<open>TestMysqlTypeToGo\<close> that fall outside the table.\<close>

lemma TestMysqlTypeToGo_unknown:
  "mysqlTypeToGo ''unknown_type'' False unsigned = ''string''"
  "mysqlTypeToGo ''unknown_type'' True unsigned = ''*string''"
  by (simp_all add: mysqlTypeToGo_def goTypeOf_def)

text \<open>
  C1. For every raw type name and both values of the unsigned flag, \<open>mysqlTypeToGo\<close>
  on a column that is not nullable returns the Go name of the base type that the table of
  section 4.1 prescribes: the signed or unsigned integer of the row's width, \<open>float32\<close>,
  \<open>float64\<close>, \<open>string\<close>, \<open>[]byte\<close> or \<open>time.Time\<close>, and \<open>string\<close> for a name
  that is in no row. On a nullable column it returns that base type or the pointer to it.
  The function is total: no raw type name raises an error.
\<close>

theorem mysqlTypeToGo_base_type:
  "mysqlTypeToGo rawType False unsigned = goName (mapType_table rawType unsigned)
   \<and> mysqlTypeToGo rawType True unsigned \<in>
       {goName (mapType_table rawType unsigned),
        optional (goName (mapType_table rawType unsigned))}"
proof
  show "mysqlTypeToGo rawType False unsigned = goName (mapType_table rawType unsigned)"
    by (simp add: mysqlTypeToGo_def goTypeOf_table)
  show "mysqlTypeToGo rawType True unsigned \<in>
       {goName (mapType_table rawType unsigned),
        optional (goName (mapType_table rawType unsigned))}"
    by (simp only: wrap_goName split: if_split) simp
qed

text \<open>
  C2. On a nullable column \<open>mysqlTypeToGo\<close> returns the pointer to the base type,
  except for the byte-sequence base type, which is returned as it is; the raw types with
  that base type are exactly binary, varbinary, blob, tinyblob, mediumblob, longblob and
  bit, and they map to \<open>[]byte\<close> whatever the nullable flag is. On a column that is not
  nullable the result is never a pointer type.
\<close>

theorem mysqlTypeToGo_nullable_wrapping:
  "mysqlTypeToGo rawType True unsigned =
     (if mapType_table rawType unsigned = ByteSeq then goName ByteSeq
      else optional (goName (mapType_table rawType unsigned)))
   \<and> (mapType_table rawType unsigned = ByteSeq \<longleftrightarrow> rawType \<in> set byteSequenceTypes)
   \<and> (rawType \<in> set byteSequenceTypes \<longrightarrow>
        mysqlTypeToGo rawType nullable unsigned = ''[]byte'')
   \<and> \<not> isOptional (mysqlTypeToGo rawType False unsigned)"
proof (intro conjI impI)
  show "mysqlTypeToGo rawType True unsigned =
     (if mapType_table rawType unsigned = ByteSeq then goName ByteSeq
      else optional (goName (mapType_table rawType unsigned)))"
    by (rule wrap_goName)
  show "mapType_table rawType unsigned = ByteSeq \<longleftrightarrow> rawType \<in> set byteSequenceTypes"
    by (rule byteSeq_raw_types)
  show "\<not> isOptional (mysqlTypeToGo rawType False unsigned)"
    by (simp add: mysqlTypeToGo_def goTypeOf_table goName_not_optional)
next
  assume "rawType \<in> set byteSequenceTypes"
  then have b: "mapType_table rawType unsigned = ByteSeq"
    by (simp only: byteSeq_raw_types)
  show "mysqlTypeToGo rawType nullable unsigned = ''[]byte''"
  proof (cases nullable)
    case True
    then show ?thesis using b by (simp add: wrap_goName)
  next
    case False
    then show ?thesis using b by (simp add: mysqlTypeToGo_def goTypeOf_table)
  qed
qed

theorem mysqlTypeToGo_nullable_wrapping_witness:
  "mysqlTypeToGo ''blob'' True False = ''[]byte''
   \<and> mysqlTypeToGo ''blob'' False False = ''[]byte''
   \<and> mysqlTypeToGo ''bigint'' True True = ''*uint64''
   \<and> mysqlTypeToGo ''datetime'' True False = ''*time.Time''
   \<and> \<not> isOptional (mysqlTypeToGo ''varchar'' False False)"
  using mysqlTypeToGo_nullable_wrapping [of "''blob''" False False]
    mysqlTypeToGo_nullable_wrapping [of "''blob''" False True]
    mysqlTypeToGo_nullable_wrapping [of "''bigint''" True]
    mysqlTypeToGo_nullable_wrapping [of "''datetime''" False]
    mysqlTypeToGo_nullable_wrapping [of "''varchar''" False]
  by (simp add: mapType_table_def byteSequenceTypes_def optional_def)

section \<open>Properties of the case converters\<close>

lemma decodeRune_width: "0 < snd (decodeRune (c # cs))"
  by (simp add: Let_def split: list.split)

lemma rangeString_offsets: "(j, r) \<in> set (rangeString i s) \<Longrightarrow> i \<le> j"
proof (induction i s rule: rangeString.induct)
  case (1 i)
  then show ?case by simp
next
  case (2 i c cs)
  obtain r0 w where d: "decodeRune (c # cs) = (r0, w)" by (cases "decodeRune (c # cs)")
  from 2(2) d have "(j, r) = (i, r0) \<or> (j, r) \<in> set (rangeString (i + w) (drop (w - 1) cs))"
    by simp
  then show ?case
  proof
    assume "(j, r) = (i, r0)" then show ?thesis by simp
  next
    assume "(j, r) \<in> set (rangeString (i + w) (drop (w - 1) cs))"
    with 2(1) [OF d [symmetric] refl] have "i + w \<le> j" by simp
    then show ?thesis by simp
  qed
qed

lemma toSnakeCase_pieces: "toSnakeCase U s = concat (map (piece U) (rangeString 0 s))"
proof -
  have "(\<lambda>(i, r) result.
             if unicode_IsUpper U r then
               (if 0 < i then result @ encodeRune 0x5F else result)
                 @ encodeRune (unicode_ToLower U r)
             else result @ encodeRune r) = (\<lambda>x acc. acc @ piece U x)"
    by (auto simp add: piece_def fun_eq_iff)
  then show ?thesis
    by (simp add: toSnakeCase_def fold_append_pieces)
qed

lemma pieces_later:
  "\<forall>(j, r) \<in> set xs. 0 < j \<Longrightarrow>
   concat (map (piece U) xs) =
   writeRunes (concat (map (\<lambda>r. if unicode_IsUpper U r then [0x5F, unicode_ToLower U r] else [r])
                         (map snd xs)))"
  by (induction xs) (auto simp add: piece_def writeRunes_def)

lemma toSnakeCase_runes: "toSnakeCase U s = writeRunes (toFileCase_spec U (runes s))"
proof (cases s)
  case Nil
  then show ?thesis by (simp add: toSnakeCase_def toFileCase_spec_def runes_def writeRunes_def)
next
  case (Cons c cs)
  obtain r0 w where d: "decodeRune (c # cs) = (r0, w)" by (cases "decodeRune (c # cs)")
  have w: "0 < w" using decodeRune_width [of c cs] d by simp
  let ?rest = "rangeString (0 + w) (drop (w - 1) cs)"
  have later: "\<forall>(j, r) \<in> set ?rest. 0 < j"
    using rangeString_offsets w by fastforce
  have rs: "rangeString 0 s = (0, r0) # ?rest" using Cons d by simp
  have first: "piece U (0, r0) =
      writeRunes (if unicode_IsUpper U r0 then [unicode_ToLower U r0] else [r0])"
    by (simp add: piece_def writeRunes_def)
  have "toSnakeCase U s = piece U (0, r0) @ concat (map (piece U) ?rest)"
    by (simp add: toSnakeCase_pieces rs)
  also have "\<dots> = writeRunes (toFileCase_spec U (r0 # map snd ?rest))"
    unfolding pieces_later [OF later] first
    by (simp add: toFileCase_spec_def writeRunes_def)
  finally show ?thesis by (simp add: runes_def rs)
qed

lemma rangeString_ascii:
  "\<forall>c \<in> set s. byte c < 0x80 \<Longrightarrow> map snd (rangeString i s) = map byte s"
  by (induction s arbitrary: i) (simp_all add: Let_def)

lemma runes_ascii: "\<forall>c \<in> set s. byte c < 0x80 \<Longrightarrow> runes s = map byte s"
  by (simp add: runes_def rangeString_ascii)

lemma encode_ascii_byte: "byte c < 0x80 \<Longrightarrow> encodeRune (byte c) = [c]"
  by (simp add: encodeRune_def byte_def)

lemma encode_lower: "byte c < 0x80 \<Longrightarrow> isAsciiUpper c \<Longrightarrow>
    encodeRune (unicode_ToLower U (byte c)) = [asciiLower c]"
  by (simp add: encodeRune_def unicode_ToLower_def isAsciiUpper_def asciiLower_def)

lemma upper_ascii: "byte c < 0x80 \<Longrightarrow> unicode_IsUpper U (byte c) = isAsciiUpper c"
  by (simp add: unicode_IsUpper_def isAsciiUpper_def)

lemma later_ascii:
  "\<forall>c \<in> set cs. byte c < 0x80 \<Longrightarrow>
   writeRunes (concat (map (\<lambda>r. if unicode_IsUpper U r then [0x5F, unicode_ToLower U r] else [r])
                         (map byte cs)))
   = concat (map (\<lambda>c. if isAsciiUpper c then [CHR ''_'', asciiLower c] else [c]) cs)"
proof (induction cs)
  case Nil
  then show ?case by (simp add: writeRunes_def)
next
  case (Cons c cs)
  then have c: "byte c < 0x80" by simp
  have us: "encodeRune 0x5F = ''_''"
    by (simp add: encodeRune_def char_of_eq_iff)
  from Cons have "writeRunes (concat (map (\<lambda>r. if unicode_IsUpper U r
        then [0x5F, unicode_ToLower U r] else [r]) (map byte cs)))
     = concat (map (\<lambda>c. if isAsciiUpper c then [CHR ''_'', asciiLower c] else [c]) cs)"
    by simp
  then show ?case
    using c by (simp add: writeRunes_def upper_ascii encode_lower encode_ascii_byte us)
qed

lemma toSnakeCase_ascii:
  assumes "\<forall>c \<in> set s. byte c < 0x80"
  shows "toSnakeCase U s = toFileCase_ascii s"
proof (cases s)
  case Nil
  then show ?thesis by (simp add: toSnakeCase_def toFileCase_ascii_def)
next
  case (Cons c cs)
  with assms have c: "byte c < 0x80" and cs: "\<forall>c \<in> set cs. byte c < 0x80" by simp_all
  have "toSnakeCase U s = writeRunes (toFileCase_spec U (byte c # map byte cs))"
    using toSnakeCase_runes [of U s] runes_ascii [OF assms] Cons by simp
  also have "\<dots> = writeRunes (if unicode_IsUpper U (byte c) then [unicode_ToLower U (byte c)]
                               else [byte c])
      @ writeRunes (concat (map (\<lambda>r. if unicode_IsUpper U r then [0x5F, unicode_ToLower U r]
                                      else [r]) (map byte cs)))"
    by (simp add: toFileCase_spec_def writeRunes_def)
  also have "\<dots> = toFileCase_ascii s"
    unfolding later_ascii [OF cs]
    using c Cons
    by (simp add: toFileCase_ascii_def writeRunes_def upper_ascii encode_lower
        encode_ascii_byte asciiLower_def)
  finally show ?thesis .
qed

lemma fold_update_map:
  "n \<le> length xs \<Longrightarrow>
   fold (\<lambda>i xs. xs[i := f (xs ! i)]) [0..<n] xs = map f (take n xs) @ drop n xs"
proof (induction n)
  case 0
  then show ?case by simp
next
  case (Suc n)
  then have n: "n < length xs" by simp
  have "fold (\<lambda>i xs. xs[i := f (xs ! i)]) [0..<Suc n] xs
        = (map f (take n xs) @ drop n xs)[n := f ((map f (take n xs) @ drop n xs) ! n)]"
    using Suc by simp
  also have "(map f (take n xs) @ drop n xs) ! n = xs ! n"
    using n by (simp add: nth_append)
  also have "(map f (take n xs) @ drop n xs)[n := f (xs ! n)]
        = map f (take n xs) @ (drop n xs)[0 := f (xs ! n)]"
    using n by (simp add: list_update_append)
  also have "(drop n xs)[0 := f (xs ! n)] = f (xs ! n) # drop (Suc n) xs"
    using n by (simp add: Cons_nth_drop_Suc [symmetric])
  also have "map f (take n xs) @ f (xs ! n) # drop (Suc n) xs
        = map f (take (Suc n) xs) @ drop (Suc n) xs"
    using n by (simp add: take_Suc_conv_app_nth)
  finally show ?case .
qed

lemma toCamelCase_map:
  "toCamelCase s = concat (map capitalize (strings_Split s (CHR ''_'')))"
proof -
  have body: "(\<lambda>i parts. case parts ! i of [] \<Rightarrow> parts
                | c # cs \<Rightarrow> parts[i := strings_ToUpper1 c @ cs])
      = (\<lambda>i parts. parts[i := capitalize (parts ! i)])"
  proof (intro ext)
    fix i :: nat and parts :: "string list"
    show "(case parts ! i of [] \<Rightarrow> parts | c # cs \<Rightarrow> parts[i := strings_ToUpper1 c @ cs])
          = parts[i := capitalize (parts ! i)]"
      by (cases "parts ! i") (simp_all, metis list_update_id)
  qed
  show ?thesis
    unfolding toCamelCase_def Let_def body
    by (simp add: fold_update_map)
qed

lemma split_bytes_all: "\<forall>p \<in> set (strings_Split s sep). set p \<subseteq> set s"
proof (induction s)
  case Nil
  then show ?case by simp
next
  case (Cons c cs)
  show ?case
  proof (cases "strings_Split cs sep")
    case Nil
    with Cons show ?thesis by simp
  next
    case (Cons a list)
    with Cons.IH have "set a \<subseteq> set cs" and "\<forall>p \<in> set list. set p \<subseteq> set cs"
      by simp_all
    with Cons show ?thesis by auto
  qed
qed

lemma toCamelCase_ascii:
  assumes "\<forall>c \<in> set s. byte c < 0x80"
  shows "toCamelCase s = toFieldCase_ascii s"
proof -
  have "map capitalize (strings_Split s (CHR ''_''))
        = map (\<lambda>seg. case seg of [] \<Rightarrow> [] | c # cs \<Rightarrow> asciiUpper c # cs)
            (strings_Split s (CHR ''_''))"
  proof (rule map_cong [OF refl])
    fix seg assume "seg \<in> set (strings_Split s (CHR ''_''))"
    then have "set seg \<subseteq> set s" using split_bytes_all by blast
    with assms have "\<forall>c \<in> set seg. byte c < 0x80" by auto
    then show "capitalize seg = (case seg of [] \<Rightarrow> [] | c # cs \<Rightarrow> asciiUpper c # cs)"
      by (cases seg) (simp_all add: strings_ToUpper1_def asciiUpper_def)
  qed
  then show ?thesis by (simp only: toCamelCase_map toFieldCase_ascii_def)
qed

text \<open>The cases of the repository's tests \<open>TestToCamelCase\<close> and \<open>TestToSnakeCase\<close>.\<close>

lemma TestToCamelCase:
  "toCamelCase ''user'' = ''User''"
  "toCamelCase ''user_id'' = ''UserId''"
  "toCamelCase ''user_account'' = ''UserAccount''"
  "toCamelCase ''created_at'' = ''CreatedAt''"
  "toCamelCase ''id'' = ''Id''"
  "toCamelCase ''USER'' = ''USER''"
  "toCamelCase ''user_name_test'' = ''UserNameTest''"
  "toCamelCase '''' = ''''"
  "toCamelCase ''a'' = ''A''"
  "toCamelCase ''a_b_c'' = ''ABC''"
  by (simp_all add: toCamelCase_map string_eval)

lemma TestToSnakeCase:
  "toSnakeCase U ''User'' = ''user''"
  "toSnakeCase U ''UserId'' = ''user_id''"
  "toSnakeCase U ''UserAccount'' = ''user_account''"
  "toSnakeCase U ''CreatedAt'' = ''created_at''"
  "toSnakeCase U ''ID'' = ''i_d''"
  "toSnakeCase U ''user'' = ''user''"
  "toSnakeCase U ''userNameTest'' = ''user_name_test''"
  "toSnakeCase U '''' = ''''"
  "toSnakeCase U ''A'' = ''a''"
  "toSnakeCase U ''ABC'' = ''a_b_c''"
  by (simp_all add: toSnakeCase_def string_eval)

text \<open>
  \<open>toSnakeCase\<close> works on characters: with case tables that know \<open>U+00C9\<close> as the upper
  case of \<open>U+00E9\<close>, the two bytes \<open>C3 89\<close> are read as one upper case letter.
\<close>

lemma toSnakeCase_multibyte_character:
  "IsUpperTab U 0xC9 \<Longrightarrow> ToLowerTab U 0xC9 = 0xE9 \<Longrightarrow>
   toSnakeCase U [CHR ''a'', CHR 0xC3, CHR 0x89] = [CHR ''a'', CHR ''_'', CHR 0xC3, CHR 0xA9]"
  by (simp add: toSnakeCase_def string_eval)

text \<open>
  C7. \<open>toCamelCase\<close> takes the first byte of a segment, not its first character. The
  string \<open>C3 A9\<close> is the one character \<open>U+00E9\<close> (e with acute accent); \<open>toCamelCase\<close>
  returns the four bytes \<open>EF BF BD A9\<close>, which a reader decodes as two replacement
  characters \<open>U+FFFD\<close>: the first character is not put in upper case, and the rest of the
  segment is not left as it was.
\<close>

theorem toCamelCase_multibyte_first_character:
  "runes [CHR 0xC3, CHR 0xA9] = [0xE9]
   \<and> toCamelCase [CHR 0xC3, CHR 0xA9] = [CHR 0xEF, CHR 0xBF, CHR 0xBD, CHR 0xA9]
   \<and> runes (toCamelCase [CHR 0xC3, CHR 0xA9]) = [RuneError, RuneError]"
proof -
  have out: "toCamelCase [CHR 0xC3, CHR 0xA9] = [CHR 0xEF, CHR 0xBF, CHR 0xBD, CHR 0xA9]"
    by (simp add: toCamelCase_map string_eval)
  have "runes [CHR 0xC3, CHR 0xA9] = [0xE9]"
    by (simp add: runes_def string_eval)
  moreover have "runes [CHR 0xEF, CHR 0xBF, CHR 0xBD, CHR 0xA9] = [RuneError, RuneError]"
    by (simp add: runes_def string_eval)
  ultimately show ?thesis by (simp only: out simp_thms)
qed

text \<open>
  C8. \<open>toSnakeCase\<close> is defined on every string and scans it character by character: the
  result is the written form of what \<open>toFileCase_spec\<close> makes of the characters of the
  input. On an ASCII string, where the characters are the bytes, that is
  \<open>toFileCase_ascii\<close>. The empty string maps to the empty string, and each letter of a
  run of upper case letters gets an underscore of its own, the first letter of the string
  excepted.
\<close>

theorem toSnakeCase_characters:
  "toSnakeCase U s = writeRunes (toFileCase_spec U (runes s))
   \<and> ((\<forall>c \<in> set s. byte c < 0x80) \<longrightarrow> toSnakeCase U s = toFileCase_ascii s)
   \<and> toSnakeCase U [] = []
   \<and> toSnakeCase U ''ABC'' = ''a_b_c''"
  by (simp add: toSnakeCase_runes [symmetric] toSnakeCase_ascii TestToSnakeCase)

theorem toSnakeCase_characters_witness:
  "list_all (\<lambda>c. byte c < 0x80) ''userNameTest''
   \<and> toFileCase_ascii ''userNameTest'' = ''user_name_test''
   \<and> toSnakeCase asciiTables ''userNameTest'' = ''user_name_test''"
proof -
  have ascii: "\<forall>c \<in> set ''userNameTest''. byte c < 0x80"
    by (simp add: byte_def)
  have rule: "toFileCase_ascii ''userNameTest'' = ''user_name_test''"
    by (simp add: toFileCase_ascii_def isAsciiUpper_def asciiLower_def byte_def char_of_eq_iff)
  from toSnakeCase_characters [of asciiTables "''userNameTest''"] ascii
  have "toSnakeCase asciiTables ''userNameTest'' = toFileCase_ascii ''userNameTest''"
    by blast
  with ascii rule show ?thesis by (simp only: list_all_iff simp_thms)
qed

text \<open>
  C9. The case converters are not inverse to each other, in either order: the upper case
  word \<open>ABC\<close> without underscore comes back from \<open>toCamelCase\<close> and then
  \<open>toSnakeCase\<close> as \<open>a_b_c\<close>, and the word \<open>abc\<close> comes back from \<open>toSnakeCase\<close> and
  then \<open>toCamelCase\<close> as \<open>Abc\<close>.
\<close>

theorem case_converters_not_round_trip:
  "(\<exists>s. toSnakeCase U (toCamelCase s) \<noteq> s)
   \<and> (\<exists>t. toCamelCase (toSnakeCase U t) \<noteq> t)
   \<and> toSnakeCase U (toCamelCase ''ABC'') = ''a_b_c''
   \<and> toCamelCase (toSnakeCase U ''abc'') = ''Abc''"
proof -
  have a: "toSnakeCase U (toCamelCase ''ABC'') = ''a_b_c''"
    by (simp add: toCamelCase_map toSnakeCase_def string_eval)
  have b: "toCamelCase (toSnakeCase U ''abc'') = ''Abc''"
    by (simp add: toCamelCase_map toSnakeCase_def string_eval)
  from a have "toSnakeCase U (toCamelCase ''ABC'') \<noteq> ''ABC''" by simp
  moreover from b have "toCamelCase (toSnakeCase U ''abc'') \<noteq> ''abc''" by simp
  ultimately show ?thesis using a b by blast
qed

lemma upper_case_word_round_trip: "toCamelCase (toSnakeCase U ''ABC'') = ''ABC''"
  by (simp add: toCamelCase_map toSnakeCase_def string_eval)

section \<open>Properties of the emission\<close>

lemma fold_update_once:
  "m = [] \<or> m = [(k, v)] \<Longrightarrow>
   fold (\<lambda>x m. if P x then AList.update k v m else m) xs m =
     (if m = [] \<and> (\<forall>x \<in> set xs. \<not> P x) then [] else [(k, v)])"
proof (induction xs arbitrary: m)
  case Nil
  then show ?case by auto
next
  case (Cons x xs)
  let ?f = "\<lambda>x m. if P x then AList.update k v m else m"
  have m': "?f x m = [] \<or> ?f x m = [(k, v)]"
    using Cons.prems by auto
  have "fold ?f (x # xs) m = fold ?f xs (?f x m)"
    by simp
  also have "\<dots> = (if ?f x m = [] \<and> (\<forall>x \<in> set xs. \<not> P x) then [] else [(k, v)])"
    by (rule Cons.IH [OF m'])
  also have "\<dots> = (if m = [] \<and> (\<forall>y \<in> set (x # xs). \<not> P y) then [] else [(k, v)])"
    using Cons.prems by (cases "P x") auto
  finally show ?case .
qed

lemma validOrder_Nil: "validOrder ord \<Longrightarrow> ord [] = []"
  unfolding validOrder_def by (metis distinct.simps(1) set_empty2 list.set(1))

lemma singleton_list: "distinct xs \<Longrightarrow> set xs = {k} \<Longrightarrow> xs = [k]"
proof (cases xs)
  case Nil
  assume "set xs = {k}"
  with Nil show ?thesis by simp
next
  case (Cons x rest)
  assume d: "distinct xs" and s: "set xs = {k}"
  from s Cons have x: "x = k" by auto
  from d Cons x have "k \<notin> set rest" by simp
  moreover from s Cons have "set rest \<subseteq> {k}" by auto
  ultimately have "rest = []" by (cases rest) auto
  then show ?thesis using Cons x by simp
qed

lemma validOrder_single: "validOrder ord \<Longrightarrow> ord [k] = [k]"
  unfolding validOrder_def by (rule singleton_list) simp_all

lemma validOrder_id: "validOrder (\<lambda>ks. ks)"
  by (simp add: validOrder_def)

lemma validOrder_rev: "validOrder rev"
  by (simp add: validOrder_def)

lemma appended_keys: "fold (\<lambda>imp result. result @ [imp]) ks [] = ks"
  using fold_append_pieces [of "\<lambda>imp. [imp]" ks "[]"] by simp

lemma collectImports_value:
  assumes "validOrder ord"
  shows "collectImports ord table =
    (if \<forall>col \<in> set (Columns table).
          DataType col \<notin> set [''datetime'', ''timestamp'', ''date'', ''time'']
     then [] else [''time''])"
  unfolding collectImports_def Let_def appended_keys
    fold_update_once [of "[]", OF disjI1 [OF refl]]
  using assms by (simp add: validOrder_Nil validOrder_single)

lemma generateStruct_decl:
  "generateStruct ord g table =
     declHeader ord g table @ concat (map columnField (Columns table)) @ ''}'' @ nl"
proof -
  have fields: "(\<lambda>col buf.
                        let fieldName = toCamelCase (Column.Name col);
                            fieldType = mysqlTypeToGo (DataType col) (IsNullable col)
                                          (IsUnsigned col);
                            tag = backquote @ ''db:'' @ dquote @ Column.Name col @ dquote
                                    @ backquote
                        in buf @ tab @ fieldName @ '' '' @ fieldType @ '' '' @ tag @ nl)
      = (\<lambda>col buf. buf @ columnField col)"
    by (simp add: fun_eq_iff columnField_def fieldDecl_def Let_def)
  have imps: "(\<lambda>imp buf. buf @ tab @ fmt_q imp @ nl)
      = (\<lambda>imp buf. buf @ (tab @ dquote @ imp @ dquote @ nl))"
    by (simp add: fun_eq_iff fmt_q_def)
  show ?thesis
    unfolding generateStruct_def fields imps
    by (simp add: Let_def fold_append_pieces declHeader_def importBlock_def)
qed

text \<open>
  C5. The imports that \<open>collectImports\<close> returns do not depend on the order in which the
  run visits the keys of the map: any two runs on the same table return the same sequence,
  and emit the same text.
\<close>

theorem collectImports_deterministic:
  assumes "validOrder ord1" and "validOrder ord2"
  shows "collectImports ord1 table = collectImports ord2 table
         \<and> generateStruct ord1 g table = generateStruct ord2 g table"
  by (simp only: generateStruct_decl declHeader_def
      collectImports_value [OF assms(1)] collectImports_value [OF assms(2)])

theorem collectImports_deterministic_witness:
  "validOrder (\<lambda>ks. ks) \<and> validOrder rev
   \<and> collectImports (\<lambda>ks. ks) user_accounts = collectImports rev user_accounts
   \<and> collectImports rev user_accounts = [''time'']
   \<and> generateStruct (\<lambda>ks. ks) (New ''models'' ''out'' []) user_accounts =
       generateStruct rev (New ''models'' ''out'' []) user_accounts"
proof -
  have "collectImports rev user_accounts = [''time'']"
    by (simp add: collectImports_def user_accounts_def column_def)
  then show ?thesis
    using collectImports_deterministic [OF validOrder_id validOrder_rev,
        of user_accounts "New ''models'' ''out'' []"]
    by (simp add: validOrder_id validOrder_rev)
qed

text \<open>
  The early variant has two keys for a nullable time column, and its result follows the
  order of the iteration.
\<close>

lemma collectImports_early_order_dependent:
  "collectImports_early (\<lambda>ks. ks) events = [''time'', ''database/sql'']"
  "collectImports_early rev events = [''database/sql'', ''time'']"
  by (simp_all add: collectImports_early_def events_def column_def)

text \<open>
  C3. The text that \<open>generateStruct\<close> emits is the header of the declaration, then one
  field for each column of the table, in the order of the columns, then the closing brace.
  The field of a column is its name in field case, its mapped type and the annotation
  \<open>db\<close> whose value is the name of the column as it is.
\<close>

theorem generateStruct_one_field_per_column:
  "generateStruct ord g table =
     declHeader ord g table @ concat (map columnField (Columns table)) @ ''}'' @ nl
   \<and> length (map columnField (Columns table)) = length (Columns table)
   \<and> columnField col =
       tab @ toCamelCase (Column.Name col) @ '' ''
       @ mysqlTypeToGo (DataType col) (IsNullable col) (IsUnsigned col) @ '' ''
       @ backquote @ ''db:'' @ dquote @ Column.Name col @ dquote @ backquote @ nl"
  by (simp add: generateStruct_decl columnField_def fieldDecl_def)

text \<open>
  C4. For the table \<open>user_accounts\<close> with the columns id (bigint unsigned), username
  (varchar), email (varchar, nullable), created_at (datetime) and deleted_at (datetime,
  nullable), the declaration has the type name \<open>UserAccounts\<close> and five fields in the order
  of the columns: \<open>Id uint64\<close>, \<open>Username string\<close>, \<open>Email *string\<close>,
  \<open>CreatedAt time.Time\<close> and \<open>DeletedAt *time.Time\<close>, each with the name of its column in
  the annotation; \<open>time\<close> is the one import.
\<close>

theorem generateStruct_user_accounts:
  assumes "validOrder ord"
  shows "generateStruct ord g user_accounts =
           ''package '' @ packageName g @ nl @ nl
           @ ''import ('' @ nl @ tab @ dquote @ ''time'' @ dquote @ nl @ '')'' @ nl @ nl
           @ ''type UserAccounts struct {'' @ nl
           @ fieldDecl ''Id'' ''uint64'' ''id''
           @ fieldDecl ''Username'' ''string'' ''username''
           @ fieldDecl ''Email'' ''*string'' ''email''
           @ fieldDecl ''CreatedAt'' ''time.Time'' ''created_at''
           @ fieldDecl ''DeletedAt'' ''*time.Time'' ''deleted_at''
           @ ''}'' @ nl
         \<and> collectImports ord user_accounts = [''time'']"
proof -
  have imps: "collectImports ord user_accounts = [''time'']"
    by (simp add: collectImports_value [OF assms] user_accounts_def column_def)
  have name: "toCamelCase ''user_accounts'' = ''UserAccounts''"
    by (simp add: toCamelCase_map string_eval)
  have names:
    "toCamelCase ''id'' = ''Id''" "toCamelCase ''username'' = ''Username''"
    "toCamelCase ''email'' = ''Email''" "toCamelCase ''created_at'' = ''CreatedAt''"
    "toCamelCase ''deleted_at'' = ''DeletedAt''"
    by (simp_all add: toCamelCase_map string_eval)
  have fields: "map columnField (Columns user_accounts) =
      [fieldDecl ''Id'' ''uint64'' ''id'', fieldDecl ''Username'' ''string'' ''username'',
       fieldDecl ''Email'' ''*string'' ''email'',
       fieldDecl ''CreatedAt'' ''time.Time'' ''created_at'',
       fieldDecl ''DeletedAt'' ''*time.Time'' ''deleted_at'']"
    by (simp add: user_accounts_def column_def columnField_def names
        mysqlTypeToGo_def goTypeOf_def)
  have "Table.Name user_accounts = ''user_accounts''"
    by (simp add: user_accounts_def)
  then show ?thesis
    unfolding generateStruct_decl declHeader_def imps fields name
    by (simp add: importBlock_def name)
qed

theorem generateStruct_user_accounts_witness:
  "validOrder (\<lambda>ks. ks)
   \<and> generateStruct (\<lambda>ks. ks) (New ''models'' ''out'' []) user_accounts =
       ''package models'' @ nl @ nl
       @ ''import ('' @ nl @ tab @ dquote @ ''time'' @ dquote @ nl @ '')'' @ nl @ nl
       @ ''type UserAccounts struct {'' @ nl
       @ tab @ ''Id uint64 '' @ backquote @ ''db:'' @ dquote @ ''id'' @ dquote @ backquote @ nl
       @ tab @ ''Username string '' @ backquote @ ''db:'' @ dquote @ ''username'' @ dquote
         @ backquote @ nl
       @ tab @ ''Email *string '' @ backquote @ ''db:'' @ dquote @ ''email'' @ dquote
         @ backquote @ nl
       @ tab @ ''CreatedAt time.Time '' @ backquote @ ''db:'' @ dquote @ ''created_at'' @ dquote
         @ backquote @ nl
       @ tab @ ''DeletedAt *time.Time '' @ backquote @ ''db:'' @ dquote @ ''deleted_at'' @ dquote
         @ backquote @ nl
       @ ''}'' @ nl"
  using generateStruct_user_accounts [OF validOrder_id, of "New ''models'' ''out'' []"]
  by (simp add: validOrder_id New_def fieldDecl_def)

section \<open>Properties of the overwrite policy\<close>

lemma users_path: "outputDir g = ''out'' \<Longrightarrow> targetPath exampleEnv g users = ''out/users.go''"
  by (simp add: targetPath_def exampleEnv_def users_def asciiTables_def
      toSnakeCase_def string_eval)

lemma exampleEnv_ok:
  "MkdirAll_ok exampleEnv dir" "format_Source exampleEnv code = Some code"
  "WriteFile_ok exampleEnv path" "os_Stat_ok exampleWorld ''out/users.go''"
  by (simp_all add: exampleEnv_def exampleWorld_def os_Stat_ok_def)

text \<open>
  C6. Let the target file exist, the output directory be creatable and the formatter
  succeed. With the force flag set, \<open>Generate\<close> writes the formatted text to the file and
  returns \<open>nil\<close>, provided the write succeeds. Without the flag and with a confirmation
  function that declines, \<open>Generate\<close> returns \<open>ErrSkipped\<close> and every file is as it was.
  Without the flag and with a confirmation function that accepts, the file is overwritten
  if the write succeeds. In both cases the confirmation function is invoked exactly once,
  on the target path.
\<close>

theorem Generate_existing_file_policy:
  assumes "MkdirAll_ok e (outputDir g)"
    and "format_Source e (generateStruct (rangeOrder e) g table) = Some formatted"
    and "os_Stat_ok w (targetPath e g table)"
  shows
    "(force g \<and> WriteFile_ok e (targetPath e g table) \<longrightarrow>
        Generate e g table w =
          (None, w\<lparr>files := (files w)(targetPath e g table \<mapsto> formatted)\<rparr>))
     \<and> (\<not> force g \<and> confirmFunc g = Some confirm \<and> \<not> confirm (targetPath e g table) \<longrightarrow>
        fst (Generate e g table w) = Some ErrSkipped
        \<and> files (snd (Generate e g table w)) = files w
        \<and> confirmations (snd (Generate e g table w)) =
            confirmations w @ [targetPath e g table])
     \<and> (\<not> force g \<and> confirmFunc g = Some confirm \<and> confirm (targetPath e g table)
        \<and> WriteFile_ok e (targetPath e g table) \<longrightarrow>
        fst (Generate e g table w) = None
        \<and> files (snd (Generate e g table w)) = (files w)(targetPath e g table \<mapsto> formatted)
        \<and> confirmations (snd (Generate e g table w)) =
            confirmations w @ [targetPath e g table])"
  using assms by (simp add: Generate_def callConfirm_def os_WriteFile_def Let_def)

theorem Generate_existing_file_policy_witness:
  "os_Stat_ok exampleWorld (targetPath exampleEnv (New ''models'' ''out'' [WithForce True]) users)
   \<and> Generate exampleEnv (New ''models'' ''out'' [WithForce True]) users exampleWorld =
       (None, \<lparr>files = [''out/users.go'' \<mapsto>
                 generateStruct (\<lambda>ks. ks) (New ''models'' ''out'' [WithForce True]) users],
               confirmations = []\<rparr>)
   \<and> Generate exampleEnv (New ''models'' ''out'' [WithConfirmFunc (\<lambda>filename. False)]) users
         exampleWorld =
       (Some ErrSkipped, \<lparr>files = [''out/users.go'' \<mapsto> ''existing content''],
                           confirmations = [''out/users.go'']\<rparr>)
   \<and> Generate exampleEnv (New ''models'' ''out'' [WithConfirmFunc (\<lambda>filename. True)]) users
         exampleWorld =
       (None, \<lparr>files = [''out/users.go'' \<mapsto>
                 generateStruct (\<lambda>ks. ks)
                   (New ''models'' ''out'' [WithConfirmFunc (\<lambda>filename. True)]) users],
               confirmations = [''out/users.go'']\<rparr>)"
proof -
  let ?forced = "New ''models'' ''out'' [WithForce True]"
  let ?declined = "New ''models'' ''out'' [WithConfirmFunc (\<lambda>filename. False)]"
  let ?accepted = "New ''models'' ''out'' [WithConfirmFunc (\<lambda>filename. True)]"
  have g: "outputDir ?forced = ''out''" "force ?forced"
    "outputDir ?declined = ''out''" "\<not> force ?declined"
    "confirmFunc ?declined = Some (\<lambda>filename. False)"
    "outputDir ?accepted = ''out''" "\<not> force ?accepted"
    "confirmFunc ?accepted = Some (\<lambda>filename. True)"
    by (simp_all add: New_def WithForce_def WithConfirmFunc_def)
  have order: "rangeOrder exampleEnv = (\<lambda>ks. ks)"
    by (simp add: exampleEnv_def)
  have w: "files exampleWorld = [''out/users.go'' \<mapsto> ''existing content'']"
    "confirmations exampleWorld = []"
    by (simp_all add: exampleWorld_def)
  note p = users_path [OF g(1)] users_path [OF g(3)] users_path [OF g(6)]
  have stat: "os_Stat_ok exampleWorld (targetPath exampleEnv ?forced users)"
    "os_Stat_ok exampleWorld (targetPath exampleEnv ?declined users)"
    "os_Stat_ok exampleWorld (targetPath exampleEnv ?accepted users)"
    by (simp_all only: p exampleEnv_ok)
  show ?thesis
    using
      Generate_existing_file_policy [OF exampleEnv_ok(1) exampleEnv_ok(2) stat(1),
        of "\<lambda>filename. False"]
      Generate_existing_file_policy [OF exampleEnv_ok(1) exampleEnv_ok(2) stat(2),
        of "\<lambda>filename. False"]
      Generate_existing_file_policy [OF exampleEnv_ok(1) exampleEnv_ok(2) stat(3),
        of "\<lambda>filename. True"]
    by (simp add: g p w order exampleEnv_ok stat prod_eq_iff world.equality)
qed

text \<open>
  C10. When the target file exists, the force flag is not set and no confirmation
  function is configured, \<open>Generate\<close> overwrites the file and returns \<open>nil\<close>, provided the
  directory, the formatter and the write succeed. \<open>Generate\<close> returns \<open>ErrSkipped\<close> only
  when the file exists, the force flag is not set and a confirmation function is
  configured and declines.
\<close>

theorem Generate_without_confirmation:
  "(MkdirAll_ok e (outputDir g)
      \<and> format_Source e (generateStruct (rangeOrder e) g table) = Some formatted
      \<and> os_Stat_ok w (targetPath e g table) \<and> \<not> force g \<and> confirmFunc g = None
      \<and> WriteFile_ok e (targetPath e g table) \<longrightarrow>
      Generate e g table w =
        (None, w\<lparr>files := (files w)(targetPath e g table \<mapsto> formatted)\<rparr>))
   \<and> (fst (Generate e g table w) = Some ErrSkipped \<longrightarrow>
        (\<exists>confirm. confirmFunc g = Some confirm \<and> \<not> confirm (targetPath e g table))
        \<and> \<not> force g \<and> os_Stat_ok w (targetPath e g table))"
  by (auto simp add: Generate_def callConfirm_def os_WriteFile_def Let_def
      split: option.splits if_splits)

theorem Generate_without_confirmation_witness:
  "os_Stat_ok exampleWorld (targetPath exampleEnv (New ''models'' ''out'' []) users)
   \<and> \<not> force (New ''models'' ''out'' [])
   \<and> confirmFunc (New ''models'' ''out'' []) = None
   \<and> Generate exampleEnv (New ''models'' ''out'' []) users exampleWorld =
       (None, \<lparr>files = [''out/users.go'' \<mapsto>
                 generateStruct (\<lambda>ks. ks) (New ''models'' ''out'' []) users],
               confirmations = []\<rparr>)
   \<and> fst (Generate exampleEnv (New ''models'' ''out'' [WithConfirmFunc (\<lambda>filename. False)])
            users exampleWorld) = Some ErrSkipped
   \<and> confirmFunc (New ''models'' ''out'' [WithConfirmFunc (\<lambda>filename. False)]) \<noteq> None"
proof -
  let ?plain = "New ''models'' ''out'' []"
  let ?declined = "New ''models'' ''out'' [WithConfirmFunc (\<lambda>filename. False)]"
  have g: "outputDir ?plain = ''out''" "\<not> force ?plain" "confirmFunc ?plain = None"
    "outputDir ?declined = ''out''" "\<not> force ?declined"
    "confirmFunc ?declined = Some (\<lambda>filename. False)"
    by (simp_all add: New_def WithConfirmFunc_def)
  have order: "rangeOrder exampleEnv = (\<lambda>ks. ks)"
    by (simp add: exampleEnv_def)
  have w: "files exampleWorld = [''out/users.go'' \<mapsto> ''existing content'']"
    "confirmations exampleWorld = []"
    by (simp_all add: exampleWorld_def)
  note p = users_path [OF g(1)] users_path [OF g(4)]
  have skipped: "fst (Generate exampleEnv ?declined users exampleWorld) = Some ErrSkipped"
    by (simp add: Generate_def Let_def callConfirm_def g p exampleEnv_ok)
  show ?thesis
    using
      Generate_without_confirmation [of exampleEnv ?plain users
        "generateStruct (\<lambda>ks. ks) ?plain users" exampleWorld]
      Generate_without_confirmation [of exampleEnv ?declined users
        "generateStruct (\<lambda>ks. ks) ?declined users" exampleWorld]
    by (simp add: g p w order exampleEnv_ok skipped prod_eq_iff world.equality)
qed

end
